theory Spec2Isabelle
  imports Main "HOL-Library.AList" "HOL-Library.Word"
begin

section \<open>Python values the router handles\<close>

text \<open>
  Strings are character lists.  \<open>str.upper\<close> is modelled on the ASCII letters, which is
  all that decides whether an upper-cased name is an attribute of the \<open>logging\<close> module.
\<close>

definition upper_char :: "char \<Rightarrow> char" where
  "upper_char c =
     (case map_of (zip ''abcdefghijklmnopqrstuvwxyz'' ''ABCDEFGHIJKLMNOPQRSTUVWXYZ'') c of
        Some u \<Rightarrow> u
      | None \<Rightarrow> c)"

definition upper :: "string \<Rightarrow> string" where
  "upper s = map upper_char s"

text \<open>
  \<open>x or d\<close> for an argument that is \<open>None\<close> or a string: the default is taken when the
  argument is \<open>None\<close> or the empty string.
\<close>

definition py_or :: "string option \<Rightarrow> string \<Rightarrow> string" where
  "py_or x d = (case x of None \<Rightarrow> d | Some s \<Rightarrow> (if s = [] then d else s))"

text \<open>Truth of an optional flag such as \<open>kwargs.get('monolog')\<close>: \<open>None\<close> is false.\<close>

definition truthy :: "bool option \<Rightarrow> bool" where
  "truthy b = (b = Some True)"

section \<open>The \<open>logging\<close> module of the standard library, as far as pygogo uses it\<close>

subsection \<open>Levels and the attributes \<open>getattr(logging, NAME, None)\<close> can find\<close>

datatype pyattr = PyInt int | PyStr string

text \<open>
  The module attributes whose names consist of upper-case letters and underscores: the
  numeric levels and \<open>BASIC_FORMAT\<close>.  Every other attribute of the module has a lower-case
  letter in its name and cannot be reached through \<open>NAME.upper()\<close>.
\<close>

definition logging_getattr :: "string \<Rightarrow> pyattr option" where
  "logging_getattr n =
     (if n = ''CRITICAL'' then Some (PyInt 50)
      else if n = ''FATAL'' then Some (PyInt 50)
      else if n = ''ERROR'' then Some (PyInt 40)
      else if n = ''WARNING'' then Some (PyInt 30)
      else if n = ''WARN'' then Some (PyInt 30)
      else if n = ''INFO'' then Some (PyInt 20)
      else if n = ''DEBUG'' then Some (PyInt 10)
      else if n = ''NOTSET'' then Some (PyInt 0)
      else if n = ''BASIC_FORMAT'' then Some (PyStr ''%(levelname)s:%(name)s:%(message)s'')
      else None)"

text \<open>\<open>'%s' % v\<close> for the value \<open>getattr\<close> returned, when it is not an integer.\<close>

definition str_attr :: "pyattr option \<Rightarrow> string" where
  "str_attr v = (case v of None \<Rightarrow> ''None'' | Some (PyStr s) \<Rightarrow> s | Some (PyInt i) \<Rightarrow> ''<int>'')"

text \<open>
  The five severities of the specification, their ranks (the integers the \<open>logging\<close>
  module gives them) and their upper-case spellings.
\<close>

datatype SeverityLevel = DEBUG | INFO | WARNING | ERROR | CRITICAL

fun rank :: "SeverityLevel \<Rightarrow> int" where
  "rank DEBUG = 10"
| "rank INFO = 20"
| "rank WARNING = 30"
| "rank ERROR = 40"
| "rank CRITICAL = 50"

fun spelling :: "SeverityLevel \<Rightarrow> string" where
  "spelling DEBUG = ''DEBUG''"
| "spelling INFO = ''INFO''"
| "spelling WARNING = ''WARNING''"
| "spelling ERROR = ''ERROR''"
| "spelling CRITICAL = ''CRITICAL''"

subsection \<open>Records, filters, handlers and loggers\<close>

text \<open>
  A log record, with the attributes the filters and handlers below read.  Context fields
  are string-valued here.
\<close>

type_synonym fields = "(string \<times> string) list"

record log_record =
  rec_name :: string
  levelno :: int
  msg :: string

text \<open>
  Formatters are never mutated and are shared by reference between a handler and its
  copies, so they are values.  \<open>Basic_formatter\<close> stands for the module-level object
  \<open>formatters.basic_formatter\<close>; \<open>Formatter fmt\<close> for \<open>logging.Formatter(fmt)\<close>.
\<close>

datatype formatter = Basic_formatter | Formatter string

text \<open>
  Filter objects.  \<open>Filter nm\<close> is \<open>logging.Filter(nm)\<close> of the standard library.
  The other two classes live in \<open>pygogo/utils.py\<close>, which is not among the sources.
\<close>

datatype fltr =
    Filter string
  | LogFilter int
  | StructuredFilter fields

text \<open>
  Modelled from the spec: \<open>utils.LogFilter(high_level).filter\<close> and the filter that
  \<open>utils.get_structured_filter(**kwargs)\<close> returns are missing from the sources.  For the
  first the specification says that with monolog "the low-pass sink additionally requires
  severity < highLevel (the monolog filter from step 2 blocks it at \<ge> highLevel)", which is
  also what the doctest of \<open>Gogo.logger\<close> shows (with \<open>monolog=True\<close> an \<open>info\<close> event is
  printed by the low handler and a \<open>warning\<close> event is not).  For the second it says that the
  filter "injects the declared key/value pairs into every record's extra-field set before
  formatting": it admits every record.  The case of \<open>logging.Filter\<close> follows the standard
  library: an empty name admits everything, otherwise the record's logger name must be the
  filter's name or start with it and a dot.
\<close>

fun fltr_filter :: "fltr \<Rightarrow> log_record \<Rightarrow> bool" where
  "fltr_filter (Filter nm) r =
     (if length nm = 0 then True
      else if nm = rec_name r then True
      else if take (length nm) (rec_name r) \<noteq> nm then False
      else rec_name r ! length nm = CHR ''.'')"
| "fltr_filter (LogFilter high) r = (levelno r < high)"
| "fltr_filter (StructuredFilter kwargs) r = True"

text \<open>
  What a handler writes to: the two console streams the default handlers use, or any other
  sink, which the router never looks into.
\<close>

datatype sink = Stdout | Stderr | Opaque nat

text \<open>
  A handler object.  Its \<open>filters\<close> attribute is a reference to a list object, so that two
  handlers can share one list (as a shallow copy of a handler does).
\<close>

record handler =
  hdlr_stream :: sink
  hdlr_level :: int
  hdlr_formatter :: "formatter option"
  hdlr_filters :: nat

text \<open>
  A logger object.  \<open>logging.getLogger\<close> keeps one logger per name for the whole process,
  so a logger is identified by its name.
\<close>

record logger =
  lggr_level :: int
  lggr_handlers :: "nat list"

text \<open>
  The process-wide state: the registry \<open>Logger.manager.loggerDict\<close> and the store of
  objects.  An address is an index into the list of its kind of object; allocation
  appends.  Python references never dangle, so a reference held by a well-formed state is
  below the length of its list.
\<close>

record logging_state =
  loggerDict :: "string \<rightharpoonup> logger"
  hdlrs :: "handler list"
  flists :: "nat list list"
  fltrs :: "fltr list"

definition getLogger :: "string \<Rightarrow> logging_state \<Rightarrow> logging_state" where
  "getLogger nm g =
     (case loggerDict g nm of
        Some lg \<Rightarrow> g
      | None \<Rightarrow> g\<lparr>loggerDict := (loggerDict g)(nm \<mapsto> \<lparr>lggr_level = 0, lggr_handlers = []\<rparr>)\<rparr>)"

definition the_logger :: "logging_state \<Rightarrow> string \<Rightarrow> logger" where
  "the_logger g nm =
     (case loggerDict g nm of Some lg \<Rightarrow> lg | None \<Rightarrow> \<lparr>lggr_level = 0, lggr_handlers = []\<rparr>)"

text \<open>\<open>Logger.setLevel\<close> and \<open>Logger.addHandler\<close> (a handler already in the list is not added).\<close>

definition Logger_setLevel :: "string \<Rightarrow> int \<Rightarrow> logging_state \<Rightarrow> logging_state" where
  "Logger_setLevel nm lvl g =
     g\<lparr>loggerDict := (loggerDict g)(nm \<mapsto> (the_logger g nm)\<lparr>lggr_level := lvl\<rparr>)\<rparr>"

definition addHandler :: "string \<Rightarrow> nat \<Rightarrow> logging_state \<Rightarrow> logging_state" where
  "addHandler nm h g =
     (let lg = the_logger g nm
      in if h \<in> set (lggr_handlers lg) then g
         else g\<lparr>loggerDict := (loggerDict g)(nm \<mapsto> lg\<lparr>lggr_handlers := lggr_handlers lg @ [h]\<rparr>)\<rparr>)"

text \<open>
  \<open>logging.StreamHandler(stream)\<close>: a new handler object with level \<open>NOTSET\<close>, no formatter
  and a new, empty filter list.
\<close>

definition StreamHandler :: "sink \<Rightarrow> logging_state \<Rightarrow> nat \<times> logging_state" where
  "StreamHandler s g =
     (let l = length (flists g);
          g1 = g\<lparr>flists := flists g @ [[]]\<rparr>;
          h = length (hdlrs g1)
      in (h, g1\<lparr>hdlrs := hdlrs g1 @
            [\<lparr>hdlr_stream = s, hdlr_level = 0, hdlr_formatter = None, hdlr_filters = l\<rparr>]\<rparr>))"

text \<open>\<open>Handler.setLevel\<close>, \<open>Handler.setFormatter\<close> and \<open>Filterer.addFilter\<close>.\<close>

definition setLevel :: "nat \<Rightarrow> int \<Rightarrow> logging_state \<Rightarrow> logging_state" where
  "setLevel h lvl g = g\<lparr>hdlrs := (hdlrs g)[h := (hdlrs g ! h)\<lparr>hdlr_level := lvl\<rparr>]\<rparr>"

definition setFormatter :: "nat \<Rightarrow> formatter \<Rightarrow> logging_state \<Rightarrow> logging_state" where
  "setFormatter h fmt g = g\<lparr>hdlrs := (hdlrs g)[h := (hdlrs g ! h)\<lparr>hdlr_formatter := Some fmt\<rparr>]\<rparr>"

definition addFilter :: "nat \<Rightarrow> nat \<Rightarrow> logging_state \<Rightarrow> logging_state" where
  "addFilter h f g =
     (let l = hdlr_filters (hdlrs g ! h)
      in if f \<in> set (flists g ! l) then g
         else g\<lparr>flists := (flists g)[l := flists g ! l @ [f]]\<rparr>)"

text \<open>Creating a filter object.\<close>

definition new_fltr :: "fltr \<Rightarrow> logging_state \<Rightarrow> nat \<times> logging_state" where
  "new_fltr f g = (length (fltrs g), g\<lparr>fltrs := fltrs g @ [f]\<rparr>)"

text \<open>
  \<open>copy.copy\<close> of a filter and of a handler: a new object with the same attribute values,
  so the copy of a handler refers to the same filter list as the original.
\<close>

definition copy_fltr :: "nat \<Rightarrow> logging_state \<Rightarrow> nat \<times> logging_state" where
  "copy_fltr f g = new_fltr (fltrs g ! f) g"

definition copy_obj_hdlr :: "nat \<Rightarrow> logging_state \<Rightarrow> nat \<times> logging_state" where
  "copy_obj_hdlr h g = (length (hdlrs g), g\<lparr>hdlrs := hdlrs g @ [hdlrs g ! h]\<rparr>)"

text \<open>\<open>map(copy, fs)\<close>, which in Python 2 builds a new list.\<close>

fun map_copy :: "nat list \<Rightarrow> logging_state \<Rightarrow> nat list \<times> logging_state" where
  "map_copy [] g = ([], g)"
| "map_copy (f # fs) g =
     (let (f', g1) = copy_fltr f g;
          (fs', g2) = map_copy fs g1
      in (f' # fs', g2))"

subsection \<open>Emitting an event on a logger\<close>

text \<open>
  \<open>Logger.getEffectiveLevel\<close>: the logger's own level unless that is \<open>NOTSET\<close>, in which
  case the level comes from the nearest ancestor that has one; \<open>inherited\<close> stands for
  what the ancestors give.
\<close>

definition getEffectiveLevel :: "logging_state \<Rightarrow> int \<Rightarrow> string \<Rightarrow> int" where
  "getEffectiveLevel g inherited nm =
     (if lggr_level (the_logger g nm) \<noteq> 0 then lggr_level (the_logger g nm) else inherited)"

definition isEnabledFor :: "logging_state \<Rightarrow> int \<Rightarrow> string \<Rightarrow> int \<Rightarrow> bool" where
  "isEnabledFor g inherited nm lvl = (lvl \<ge> getEffectiveLevel g inherited nm)"

text \<open>\<open>Filterer.filter\<close> of a handler: every filter of its list must admit the record.\<close>

definition Handler_filter :: "logging_state \<Rightarrow> nat \<Rightarrow> log_record \<Rightarrow> bool" where
  "Handler_filter g h r =
     list_all (\<lambda>f. fltr_filter (fltrs g ! f) r) (flists g ! hdlr_filters (hdlrs g ! h))"

text \<open>
  \<open>Logger.callHandlers\<close> on the logger's own handlers: a handler emits the record when
  the record's level is at least the handler's level and the handler's filters admit it.
  The result lists, in order, the handlers that emit.
\<close>

definition callHandlers :: "logging_state \<Rightarrow> string \<Rightarrow> log_record \<Rightarrow> nat list" where
  "callHandlers g nm r =
     filter (\<lambda>h. levelno r \<ge> hdlr_level (hdlrs g ! h) \<and> Handler_filter g h r)
       (lggr_handlers (the_logger g nm))"

text \<open>
  \<open>Logger.log(lvl, message)\<close>, of which \<open>debug\<close>, \<open>info\<close>, \<open>warning\<close>, \<open>error\<close> and
  \<open>critical\<close> are the instances at the levels 10 to 50.
\<close>

definition Logger_log :: "logging_state \<Rightarrow> int \<Rightarrow> string \<Rightarrow> int \<Rightarrow> string \<Rightarrow> nat list" where
  "Logger_log g inherited nm lvl message =
     (if isEnabledFor g inherited nm lvl
      then callHandlers g nm \<lparr>rec_name = nm, levelno = lvl, msg = message\<rparr>
      else [])"

text \<open>The streams an event is written to, in the order of writing.\<close>

definition written_to :: "logging_state \<Rightarrow> nat list \<Rightarrow> sink list" where
  "written_to g hs = map (\<lambda>h. hdlr_stream (hdlrs g ! h)) hs"

section \<open>\<open>handlers.py\<close>: the default handlers\<close>

definition stdout_hdlr :: "logging_state \<Rightarrow> nat \<times> logging_state" where
  "stdout_hdlr g = StreamHandler Stdout g"

definition stderr_hdlr :: "logging_state \<Rightarrow> nat \<times> logging_state" where
  "stderr_hdlr g = StreamHandler Stderr g"

section \<open>The router: \<open>pygogo.Gogo\<close>\<close>

datatype error = ValueError string

record Gogo =
  high_level :: int
  low_level :: int
  loggers :: "string set"
  name :: string
  high_hdlr :: "nat option"
  low_hdlr :: "nat option"
  high_formatter :: "formatter option"
  low_formatter :: "formatter option"
  monolog :: "bool option"

text \<open>The keyword arguments \<open>Gogo.__init__\<close> reads with \<open>kwargs.get\<close>.\<close>

record init_kwargs =
  kw_verbose :: "bool option"
  kw_high_hdlr :: "nat option"
  kw_low_hdlr :: "nat option"
  kw_high_formatter :: "formatter option"
  kw_low_formatter :: "formatter option"
  kw_monolog :: "bool option"

definition no_kwargs :: init_kwargs where
  "no_kwargs = \<lparr>kw_verbose = None, kw_high_hdlr = None, kw_low_hdlr = None,
     kw_high_formatter = None, kw_low_formatter = None, kw_monolog = None\<rparr>"

text \<open>
  \<open>Gogo.__init__(self, name='root', high_level=None, low_level=None, **kwargs)\<close>.
  A raise is the left summand; the checks come in the order of the source.
\<close>

definition Gogo_init ::
  "string \<Rightarrow> string option \<Rightarrow> string option \<Rightarrow> init_kwargs \<Rightarrow> error + Gogo" where
  "Gogo_init nm high_level_arg low_level_arg kwargs =
     (let verbose = kw_verbose kwargs;
          high_level_name = py_or high_level_arg ''warning'';
          low_level_name =
            (case verbose of
               None \<Rightarrow> py_or low_level_arg ''debug''
             | Some True \<Rightarrow> ''debug''
             | Some False \<Rightarrow> ''info'');
          self_high_level = logging_getattr (upper high_level_name);
          self_low_level = logging_getattr (upper low_level_name)
      in case self_high_level of
           Some (PyInt hi) \<Rightarrow>
             (case self_low_level of
                Some (PyInt lo) \<Rightarrow>
                  (if \<not> hi \<ge> lo then Inl (ValueError ''high_level must be >= low_level'')
                   else Inr \<lparr>high_level = hi, low_level = lo, loggers = {}, name = nm,
                          high_hdlr = kw_high_hdlr kwargs, low_hdlr = kw_low_hdlr kwargs,
                          high_formatter = kw_high_formatter kwargs,
                          low_formatter = kw_low_formatter kwargs,
                          monolog = kw_monolog kwargs\<rparr>)
              | _ \<Rightarrow> Inl (ValueError (''Invalid low_level: '' @ str_attr self_low_level)))
         | _ \<Rightarrow> Inl (ValueError (''Invalid high_level: '' @ str_attr self_high_level)))"

text \<open>
  \<open>Gogo.copy_hdlr\<close>: \<open>copied_hdlr = copy(hdlr)\<close>, then
  \<open>copied_hdlr.filters = map(copy, hdlr.filters)\<close>: a new handler object, a new list object
  and a new object for each filter.
\<close>

definition copy_hdlr :: "nat \<Rightarrow> logging_state \<Rightarrow> nat \<times> logging_state" where
  "copy_hdlr hdlr g =
     (let (copied_hdlr, g1) = copy_obj_hdlr hdlr g;
          (fs, g2) = map_copy (flists g1 ! hdlr_filters (hdlrs g1 ! hdlr)) g1;
          l = length (flists g2);
          g3 = g2\<lparr>flists := flists g2 @ [fs]\<rparr>
      in (copied_hdlr,
          g3\<lparr>hdlrs := (hdlrs g3)[copied_hdlr := (hdlrs g3 ! copied_hdlr)\<lparr>hdlr_filters := l\<rparr>]\<rparr>))"

text \<open>
  \<open>Gogo.update_hdlr(self, hdlr, level, formatter=None, monolog=False, **kwargs)\<close>.
\<close>

definition update_hdlr ::
  "Gogo \<Rightarrow> nat \<Rightarrow> int \<Rightarrow> formatter option \<Rightarrow> bool option \<Rightarrow> fields \<Rightarrow>
   logging_state \<Rightarrow> logging_state" where
  "update_hdlr self hdlr level fmtr mlog kwargs g =
     (let fmt = (case fmtr of Some f \<Rightarrow> f | None \<Rightarrow> Basic_formatter);
          g1 = setLevel hdlr level g;
          g2 = (if truthy mlog
                then (let (log_filter, ga) = new_fltr (LogFilter (high_level self)) g1
                      in addFilter hdlr log_filter ga)
                else g1);
          g3 = (if kwargs \<noteq> []
                then (let (structured_filter, gb) = new_fltr (StructuredFilter kwargs) g2
                      in addFilter hdlr structured_filter gb)
                else g2)
      in setFormatter hdlr fmt g3)"

text \<open>
  \<open>Gogo.zip(self, *fmtrs)\<close>.  The two default handlers are built on every call, whether
  or not they are used; the argument \<open>fmtrs\<close> is overwritten before it is read.
\<close>

definition Gogo_zip ::
  "Gogo \<Rightarrow> formatter option list \<Rightarrow> logging_state \<Rightarrow>
   (nat \<times> int \<times> formatter option \<times> bool option) list \<times> logging_state" where
  "Gogo_zip self fmtrs_arg g =
     (let self_hdlrs = [high_hdlr self, low_hdlr self];
          (d1, g1) = stderr_hdlr g;
          (d2, g2) = stdout_hdlr g1;
          def_hdlrs = [d1, d2];
          hs = map (\<lambda>(s, d). case s of Some a \<Rightarrow> a | None \<Rightarrow> d) (zip self_hdlrs def_hdlrs);
          levels = [high_level self, low_level self];
          fmtrs = [high_formatter self, low_formatter self];
          monologs = [Some False, monolog self]
      in (zip hs (zip levels (zip fmtrs monologs)), g2))"

text \<open>
  The loop that \<open>get_logger\<close> and \<open>get_structured_logger\<close> both run over the zipped
  list: copy the handler, update the copy, attach it to the logger.
\<close>

fun attach_all ::
  "Gogo \<Rightarrow> string \<Rightarrow> fields \<Rightarrow> (nat \<times> int \<times> formatter option \<times> bool option) list \<Rightarrow>
   logging_state \<Rightarrow> logging_state" where
  "attach_all self lggr_name kwargs [] g = g"
| "attach_all self lggr_name kwargs ((hdlr, level, fmtr, mlog) # rest) g =
     (let (copied_hdlr, g1) = copy_hdlr hdlr g;
          g2 = update_hdlr self copied_hdlr level fmtr mlog kwargs g1;
          g3 = addHandler lggr_name copied_hdlr g2
      in attach_all self lggr_name kwargs rest g3)"

text \<open>
  \<open>Gogo.get_logger(self, name='base', **kwargs)\<close>.  The result is the logger (its name),
  the router with its updated set \<open>loggers\<close>, and the new process state.
\<close>

definition get_logger ::
  "Gogo \<Rightarrow> string \<Rightarrow> fields \<Rightarrow> logging_state \<Rightarrow> string \<times> Gogo \<times> logging_state" where
  "get_logger self nm kwargs g =
     (let lggr_name = name self @ ''.'' @ nm;
          g0 = getLogger lggr_name g
      in if lggr_name \<notin> loggers self
         then (let self1 = self\<lparr>loggers := insert lggr_name (loggers self)\<rparr>;
                   kwargs1 = (if kwargs \<noteq> [] then AList.update ''name'' lggr_name kwargs
                              else kwargs);
                   (zipped, g1) = Gogo_zip self1 [high_formatter self1, low_formatter self1] g0;
                   g2 = attach_all self1 lggr_name kwargs1 zipped g1;
                   g3 = Logger_setLevel lggr_name (low_level self1) g2
               in (lggr_name, self1, g3))
         else (lggr_name, self, g0))"

text \<open>The \<open>logger\<close> property: \<open>self.get_logger()\<close>.\<close>

definition Gogo_logger :: "Gogo \<Rightarrow> logging_state \<Rightarrow> string \<times> Gogo \<times> logging_state" where
  "Gogo_logger self g = get_logger self ''base'' [] g"

subsection \<open>Structured loggers\<close>

text \<open>
  \<open>hashlib.md5(s).hexdigest()\<close>: the digest is a 128-bit number, written as 32
  hexadecimal digits, most significant first.  The digest function itself and
  \<open>str(frozenset(kwargs.iteritems()))\<close> belong to the Python implementation; they are
  the parameters \<open>md5\<close> and \<open>str_values\<close> of the function below.
\<close>

definition hex_digit :: "nat \<Rightarrow> char" where
  "hex_digit n = ''0123456789abcdef'' ! (n mod 16)"

definition hexdigest :: "128 word \<Rightarrow> string" where
  "hexdigest w = map (\<lambda>i. hex_digit (unat (drop_bit (4 * (31 - i)) w))) [0..<32]"

text \<open>\<open>utils.StructuredAdapter(logger, kwargs)\<close>: the wrapped logger and the base context.\<close>

record adapter =
  ad_logger :: string
  ad_extra :: fields

text \<open>
  \<open>Gogo.get_structured_logger(self, name=None, **kwargs)\<close>.
\<close>

definition get_structured_logger ::
  "(string \<Rightarrow> 128 word) \<Rightarrow> (fields \<Rightarrow> string) \<Rightarrow> Gogo \<Rightarrow> string option \<Rightarrow> fields \<Rightarrow>
   logging_state \<Rightarrow> adapter \<times> Gogo \<times> logging_state" where
  "get_structured_logger md5 str_values self name_arg kwargs g =
     (let values = str_values kwargs;
          nm = py_or name_arg (hexdigest (md5 values));
          lggr_name = name self @ ''.structured.'' @ nm;
          g0 = getLogger lggr_name g
      in if lggr_name \<notin> loggers self
         then (let self1 = self\<lparr>loggers := insert lggr_name (loggers self)\<rparr>;
                   fmt = Basic_formatter;
                   (zipped, g1) = Gogo_zip self1 [Some fmt, Some fmt] g0;
                   g2 = attach_all self1 lggr_name [] zipped g1;
                   g3 = Logger_setLevel lggr_name (low_level self1) g2
               in (\<lparr>ad_logger = lggr_name, ad_extra = kwargs\<rparr>, self1, g3))
         else (\<lparr>ad_logger = lggr_name, ad_extra = kwargs\<rparr>, self, g0))"

text \<open>
  Modelled from the spec: \<open>utils.StructuredAdapter\<close> and the structured formatter are
  missing from the sources.  The specification gives the record of an emission as an
  ordered key/value document: "insertion order: base context keys first, then message,
  then extra keys"; "per-call extra fields supplied at emission time take precedence on key
  collision ... but neither overrides the reserved message key".  The document is built
  as an ordered dictionary: setting a key that is present replaces its value where it
  stands, setting a new key appends it.
\<close>

definition set_all :: "fields \<Rightarrow> fields \<Rightarrow> fields" where
  "set_all kvs d = fold (\<lambda>(k, v). AList.update k v) kvs d"

definition structured_record :: "fields \<Rightarrow> string \<Rightarrow> fields \<Rightarrow> fields" where
  "structured_record base message extra =
     set_all (filter (\<lambda>(k, v). k \<noteq> ''message'') extra)
       (AList.update ''message'' message (set_all base []))"

text \<open>The document as one JSON object, as the doctests of the source print it.\<close>

definition quoted :: "string \<Rightarrow> string" where
  "quoted s = [CHR 0x22] @ s @ [CHR 0x22]"

fun json_members :: "fields \<Rightarrow> string" where
  "json_members [] = []"
| "json_members [(k, v)] = quoted k @ '': '' @ quoted v"
| "json_members ((k, v) # kvs) = quoted k @ '': '' @ quoted v @ '', '' @ json_members kvs"

definition serialize :: "fields \<Rightarrow> string" where
  "serialize d = ''{'' @ json_members d @ ''}''"

text \<open>
  An emission through the adapter at level \<open>lvl\<close>: the serialized document is the message
  handed to the wrapped logger, and the handlers that emit are those of that logger.
\<close>

definition adapter_log ::
  "logging_state \<Rightarrow> int \<Rightarrow> adapter \<Rightarrow> int \<Rightarrow> string \<Rightarrow> fields \<Rightarrow> string \<times> nat list" where
  "adapter_log g inherited a lvl message extra =
     (let doc = serialize (structured_record (ad_extra a) message extra)
      in (doc, Logger_log g inherited (ad_logger a) lvl doc))"

section \<open>The state of the process when \<open>pygogo\<close> has been imported\<close>

definition no_logging :: logging_state where
  "no_logging = \<lparr>loggerDict = Map.empty, hdlrs = [], flists = [], fltrs = []\<rparr>"

text \<open>
  The module-level statements of \<open>pygogo/__init__.py\<close>: a console handler with a name
  filter, attached to the logger \<open>pygogo\<close>.
\<close>

definition pygogo_imported :: logging_state where
  "pygogo_imported =
     (let (hdlr, g1) = StreamHandler Stdout no_logging;
          (fltr, g2) = new_fltr (Filter ''pygogo.init'') g1;
          g3 = addFilter hdlr fltr g2;
          g4 = getLogger ''pygogo'' g3
      in addHandler ''pygogo'' hdlr g4)"

section \<open>Notions used to state the properties\<close>

text \<open>
  The upper-case names under which \<open>getattr(logging, NAME, None)\<close> finds an integer.
\<close>

definition level_names :: "string set" where
  "level_names =
     {''CRITICAL'', ''FATAL'', ''ERROR'', ''WARNING'', ''WARN'', ''INFO'', ''DEBUG'', ''NOTSET''}"

section \<open>Construction of a router\<close>

lemma logging_getattr_spelling: "logging_getattr (spelling L) = Some (PyInt (rank L))"
  by (cases L) (simp_all add: logging_getattr_def)

lemma logging_getattr_int:
  "(\<exists>i. logging_getattr n = Some (PyInt i)) \<longleftrightarrow> n \<in> level_names"
  by (simp add: logging_getattr_def level_names_def)

lemma Gogo_init_levels:
  assumes "kw_verbose kw = None"
    and "logging_getattr (upper (py_or ho ''warning'')) = Some (PyInt hi)"
    and "logging_getattr (upper (py_or lo ''debug'')) = Some (PyInt lw)"
  shows "Gogo_init nm ho lo kw =
     (if hi < lw then Inl (ValueError ''high_level must be >= low_level'')
      else Inr \<lparr>high_level = hi, low_level = lw, loggers = {}, name = nm,
             high_hdlr = kw_high_hdlr kw, low_hdlr = kw_low_hdlr kw,
             high_formatter = kw_high_formatter kw, low_formatter = kw_low_formatter kw,
             monolog = kw_monolog kw\<rparr>)"
  using assms by (simp add: Gogo_init_def Let_def)

lemma upper_Error: "upper ''Error'' = ''ERROR''"
  by (simp add: upper_def upper_char_def)

lemma upper_info: "upper ''info'' = ''INFO''"
  by (simp add: upper_def upper_char_def)

lemma upper_warn: "upper ''warn'' = ''WARN''"
  by (simp add: upper_def upper_char_def)

lemma upper_loud: "upper ''loud'' = ''LOUD''"
  by (simp add: upper_def upper_char_def)

text \<open>
  C4 (construction validation).  With \<open>verbose\<close> unset, so that the two names given are
  the two names used: when the high name spells the severity \<open>H\<close> and the low name spells
  \<open>L\<close>, in any mixture of upper and lower case (an omitted or empty name standing for
  its default, \<open>warning\<close> and \<open>debug\<close>), the constructor returns a router with those two
  levels and an empty set of known loggers if \<open>rank L \<le> rank H\<close>, and raises
  \<open>ValueError('high_level must be >= low_level')\<close>, producing no router, if
  \<open>rank H < rank L\<close>.  The source's \<open>ValueError\<close> is the error the specification calls
  \<open>ConfigurationError\<close>.
\<close>

theorem construction_validation:
  assumes "kw_verbose kw = None"
    and "upper (py_or ho ''warning'') = spelling H"
    and "upper (py_or lo ''debug'') = spelling L"
  shows "(rank L \<le> rank H \<longrightarrow>
            Gogo_init nm ho lo kw =
              Inr \<lparr>high_level = rank H, low_level = rank L, loggers = {}, name = nm,
                 high_hdlr = kw_high_hdlr kw, low_hdlr = kw_low_hdlr kw,
                 high_formatter = kw_high_formatter kw, low_formatter = kw_low_formatter kw,
                 monolog = kw_monolog kw\<rparr>) \<and>
         (rank H < rank L \<longrightarrow>
            Gogo_init nm ho lo kw = Inl (ValueError ''high_level must be >= low_level''))"
  using Gogo_init_levels [OF assms(1), of ho "rank H" lo "rank L" nm] assms(2,3)
  by (simp add: logging_getattr_spelling)

theorem construction_validation_witness:
  "Gogo_init ''root'' (Some ''Error'') (Some ''info'') no_kwargs =
     Inr \<lparr>high_level = 40, low_level = 20, loggers = {}, name = ''root'',
        high_hdlr = None, low_hdlr = None, high_formatter = None, low_formatter = None,
        monolog = None\<rparr> \<and>
   Gogo_init ''root'' (Some ''info'') (Some ''Error'') no_kwargs =
     Inl (ValueError ''high_level must be >= low_level'')"
  using construction_validation [of no_kwargs "Some ''Error''" ERROR "Some ''info''" INFO "''root''"]
    construction_validation [of no_kwargs "Some ''info''" INFO "Some ''Error''" ERROR "''root''"]
  by (simp add: py_or_def upper_Error upper_info no_kwargs_def)

text \<open>
  C5, as the specification states it, fails: \<open>Gogo('root', high_level='warn')\<close> is
  accepted, and \<open>warn\<close> is not a spelling of one of the five severities.
\<close>

theorem warn_accepted_counterexample:
  "(\<exists>r. Gogo_init ''root'' (Some ''warn'') None no_kwargs = Inr r) \<and>
   (\<forall>L. upper ''warn'' \<noteq> spelling L)"
proof
  show "\<exists>r. Gogo_init ''root'' (Some ''warn'') None no_kwargs = Inr r"
    by (simp add: Gogo_init_def no_kwargs_def py_or_def upper_def upper_char_def
        logging_getattr_def)
  show "\<forall>L. upper ''warn'' \<noteq> spelling L"
  proof
    fix L
    show "upper ''warn'' \<noteq> spelling L"
      by (cases L) (simp_all add: upper_def upper_char_def)
  qed
qed

text \<open>
  C5 (severity-name acceptance), amended.  With \<open>verbose\<close> unset, the constructor raises
  one of its two \<open>ValueError('Invalid ...')\<close> errors exactly when the upper-cased high
  name or the upper-cased low name (an omitted or empty name standing for its default) is
  not one of \<open>CRITICAL\<close>, \<open>FATAL\<close>, \<open>ERROR\<close>, \<open>WARNING\<close>, \<open>WARN\<close>, \<open>INFO\<close>,
  \<open>DEBUG\<close>, \<open>NOTSET\<close>: the names under which the \<open>logging\<close> module holds an integer.
\<close>

theorem severity_name_acceptance:
  assumes "kw_verbose kw = None"
  shows "(\<exists>m. Gogo_init nm ho lo kw = Inl (ValueError (''Invalid '' @ m))) \<longleftrightarrow>
         \<not> (upper (py_or ho ''warning'') \<in> level_names \<and>
            upper (py_or lo ''debug'') \<in> level_names)"
proof (cases "upper (py_or ho ''warning'') \<in> level_names")
  case False
  then have "\<nexists>i. logging_getattr (upper (py_or ho ''warning'')) = Some (PyInt i)"
    using logging_getattr_int by blast
  then have "Gogo_init nm ho lo kw =
      Inl (ValueError (''Invalid high_level: '' @
             str_attr (logging_getattr (upper (py_or ho ''warning'')))))"
    by (auto simp: Gogo_init_def Let_def split: option.splits pyattr.splits)
  with False show ?thesis by simp
next
  case hT: True
  then obtain hi where hi: "logging_getattr (upper (py_or ho ''warning'')) = Some (PyInt hi)"
    using logging_getattr_int by blast
  show ?thesis
  proof (cases "upper (py_or lo ''debug'') \<in> level_names")
    case False
    then have "\<nexists>i. logging_getattr (upper (py_or lo ''debug'')) = Some (PyInt i)"
      using logging_getattr_int by blast
    then have "Gogo_init nm ho lo kw =
       Inl (ValueError (''Invalid low_level: '' @
              str_attr (logging_getattr (upper (py_or lo ''debug'')))))"
      using hi assms by (auto simp: Gogo_init_def Let_def split: option.splits pyattr.splits)
    with False show ?thesis by simp
  next
    case True
    then obtain lw where lw: "logging_getattr (upper (py_or lo ''debug'')) = Some (PyInt lw)"
      using logging_getattr_int by blast
    show ?thesis using Gogo_init_levels [OF assms hi lw, of nm] hT True by simp
  qed
qed

theorem severity_name_acceptance_witness:
  "(\<exists>m. Gogo_init ''root'' (Some ''loud'') None no_kwargs = Inl (ValueError (''Invalid '' @ m))) \<and>
   \<not> (\<exists>m. Gogo_init ''root'' (Some ''warn'') None no_kwargs = Inl (ValueError (''Invalid '' @ m)))"
  using severity_name_acceptance [of no_kwargs "''root''" "Some ''loud''" None]
    severity_name_acceptance [of no_kwargs "''root''" "Some ''warn''" None]
  by (simp add: no_kwargs_def py_or_def upper_loud upper_warn level_names_def upper_def
      upper_char_def)

end
